theory Spec2Isabelle
  imports Main "HOL-Library.Sublist"
begin

section \<open>C strings and fixed-size character arrays\<close>

text \<open>
  The server is written in C. A \<open>char *\<close> is modelled by the bytes found at the pointer,
  a \<open>char\<close> array of N elements by a list of exactly N bytes. A string function reads up to
  the first NUL byte. Reading or writing outside an array is undefined behaviour in C; the model
  makes it the explicit outcome \<open>Inl Out_Of_Bounds\<close>.
\<close>

definition NUL :: char where
  "NUL = CHR 0x00"

definition CR :: char where
  "CR = CHR 0x0D"

definition LF :: char where
  "LF = CHR 0x0A"

definition CRLF :: string where
  "CRLF = [CR, LF]"

datatype fault = Out_Of_Bounds | Null_Pointer

text \<open>The string a \<open>char *\<close> argument denotes: the bytes before the first NUL.\<close>

definition str :: "char list \<Rightarrow> string" where
  "str bytes = takeWhile (\<lambda>c. c \<noteq> NUL) bytes"

text \<open>The string held by an array: when the array has no NUL the read runs off its end.\<close>

definition str_in :: "char list \<Rightarrow> fault + string" where
  "str_in mem = (if NUL \<in> set mem then Inr (str mem) else Inl Out_Of_Bounds)"

text \<open>
  A local array declared without initialiser holds whatever the stack held before:
  \<open>stale i\<close> is the byte at index \<open>i\<close>.
\<close>

definition uninit :: "(nat \<Rightarrow> char) \<Rightarrow> nat \<Rightarrow> char list" where
  "uninit stale n = map stale [0..<n]"

definition write_at :: "nat \<Rightarrow> char list \<Rightarrow> char list \<Rightarrow> fault + char list" where
  "write_at off bytes mem =
     (if off + length bytes \<le> length mem
      then Inr (take off mem @ bytes @ drop (off + length bytes) mem)
      else Inl Out_Of_Bounds)"

definition INT_MAX :: int where
  "INT_MAX = 2147483647"

text \<open>
  \<open>snprintf(mem, sizeof mem, ...)\<close> where \<open>s\<close> is the fully formatted text. At most
  \<open>sizeof mem - 1\<close> characters and a terminator are stored; the return value is the length of
  the whole text, truncated or not. It is negative only when that length does not fit an \<open>int\<close>.
\<close>

definition snprintf :: "char list \<Rightarrow> string \<Rightarrow> char list \<times> int" where
  "snprintf mem s =
     (if INT_MAX < int (length s) then (mem, - 1)
      else if mem = [] then (mem, int (length s))
      else (take (length mem - 1) s @ [NUL] @ drop (length (take (length mem - 1) s) + 1) mem,
            int (length s)))"

text \<open>
  \<open>strncat(dest, src, n)\<close>: at most \<open>n\<close> characters of the string \<open>src\<close> and a terminator are
  stored after the string already in \<open>dest\<close>. The function knows nothing of the size of
  \<open>dest\<close>.
\<close>

definition strncat :: "char list \<Rightarrow> string \<Rightarrow> nat \<Rightarrow> fault + char list" where
  "strncat dest src n =
     (case str_in dest of
        Inl f \<Rightarrow> Inl f
      | Inr d \<Rightarrow> write_at (length d) (take n src @ [NUL]) dest)"

text \<open>
  The first call \<open>strtok(s, delim)\<close>: leading delimiters are skipped, the token runs to the
  next delimiter or the end, and the result is NULL when nothing but delimiters is left.
\<close>

definition strtok :: "string \<Rightarrow> string \<Rightarrow> string option" where
  "strtok s delim =
     (let t = dropWhile (\<lambda>c. c \<in> set delim) s
      in if t = [] then None else Some (takeWhile (\<lambda>c. c \<notin> set delim) t))"

text \<open>\<open>strstr(haystack, needle)\<close>: the rest of the haystack from the first occurrence on.\<close>

fun strstr :: "string \<Rightarrow> string \<Rightarrow> string option" where
  "strstr [] needle = (if needle = [] then Some [] else None)"
| "strstr (c # cs) needle =
     (if prefix needle (c # cs) then Some (c # cs) else strstr cs needle)"

text \<open>The conversion \<open>%zu\<close>: an unsigned number in decimal.\<close>

definition digit :: "nat \<Rightarrow> char" where
  "digit d = ''0123456789'' ! d"

fun decimal :: "nat \<Rightarrow> string" where
  "decimal n = (if n < 10 then [digit n] else decimal (n div 10) @ [digit (n mod 10)])"

declare decimal.simps [simp del]


section \<open>Message model\<close>

record HTTPRequest =
  method' :: string
  path :: string
  body :: string
  body_length :: nat

record HTTPResponse =
  status_code :: int
  status_text :: string
  response_body :: string

text \<open>
  Modelled from the spec: \<open>response_builder\<close> and the \<open>HTTPResponse\<close> structure are declared in
  \<open>server.h\<close>, which is not among the sources. The spec gives a response a status code, a
  status text and a body owned independently of any source buffer. The body argument is a
  \<open>char *\<close> without a length, so the body is the string at that pointer.
\<close>

definition response_builder :: "int \<Rightarrow> string \<Rightarrow> string \<Rightarrow> HTTPResponse" where
  "response_builder code text body_arg =
     \<lparr>status_code = code, status_text = text, response_body = body_arg\<rparr>"


section \<open>The operating system as seen by one request\<close>

datatype file_state = Missing | Unreadable | Readable "char list"

datatype address_family = AF_UNSPEC | AF_INET | AF_INET6

datatype socket_type = SOCK_ANY | SOCK_STREAM | SOCK_DGRAM

record addrinfo =
  ai_family :: address_family
  ai_socktype :: socket_type
  ai_protocol :: int

datatype recv_outcome = Recv_Failed | Received "char list"

text \<open>
  \<open>realpath\<close> resolves a directory name or returns NULL; \<open>files\<close> is the file system, by path
  name; \<open>open_fd\<close> is the descriptor the next successful \<open>open\<close> returns (\<open>None\<close>: the
  process cannot get one); \<open>stack name\<close> is the stale content of the local array \<open>name\<close>;
  \<open>getaddrinfo\<close>, \<open>socket_ret\<close>, \<open>connect_ret\<close> and \<open>recv_ret\<close> are what these calls
  return for the backend.
\<close>

record os =
  realpath :: "string \<Rightarrow> string option"
  files :: "string \<Rightarrow> file_state"
  open_fd :: "nat option"
  stack :: "string \<Rightarrow> nat \<Rightarrow> char"
  getaddrinfo :: "string \<Rightarrow> string \<Rightarrow> address_family \<Rightarrow> socket_type \<Rightarrow> addrinfo option"
  socket_ret :: int
  connect_ret :: int
  recv_ret :: recv_outcome

text \<open>The macros of \<open>server.h\<close> and \<open>limits.h\<close>, which are not among the sources.\<close>

record config =
  MAX_BUFFER_SIZE :: nat
  PATH_MAX :: nat
  BASE_DIR :: string
  SOCKET_BIND_ERROR :: int
  SOCKET_LISTEN_ERROR :: int

datatype event =
    Access string
  | Open string
  | Read int
  | Close int
  | Getaddrinfo string string address_family socket_type
  | Socket address_family socket_type int
  | Connect int
  | Freeaddrinfo
  | Send int "char list"
  | Recv int
  | Bind
  | Listen
  | Accept int
  | Write int "char list"

text \<open>\<open>access(p, R_OK)\<close> is 0 exactly when the file exists and may be read.\<close>

definition access_R_OK :: "os \<Rightarrow> string \<Rightarrow> int" where
  "access_R_OK sys p = (case files sys p of Readable data \<Rightarrow> 0 | Unreadable \<Rightarrow> - 1 | Missing \<Rightarrow> - 1)"

definition open_RDONLY :: "os \<Rightarrow> string \<Rightarrow> int" where
  "open_RDONLY sys p =
     (case files sys p of
        Readable data \<Rightarrow> (case open_fd sys of Some fd \<Rightarrow> int fd | None \<Rightarrow> - 1)
      | Unreadable \<Rightarrow> - 1
      | Missing \<Rightarrow> - 1)"

text \<open>\<open>read(fd, mem, sizeof mem)\<close> on the file opened from \<open>p\<close>: the bytes read replace the
  front of the array, the rest of the array keeps what it held.\<close>

definition read_file :: "os \<Rightarrow> string \<Rightarrow> char list \<Rightarrow> char list" where
  "read_file sys p mem =
     (case files sys p of
        Readable data \<Rightarrow> take (length mem) data @ drop (length (take (length mem) data)) mem
      | Unreadable \<Rightarrow> mem
      | Missing \<Rightarrow> mem)"


section \<open>The request handler\<close>

definition connect_to_backend :: "os \<Rightarrow> string \<Rightarrow> string \<Rightarrow> event list \<times> int" where
  "connect_to_backend sys host port =
     (case getaddrinfo sys host port AF_INET SOCK_STREAM of
        None \<Rightarrow> ([Getaddrinfo host port AF_INET SOCK_STREAM], - 1)
      | Some res \<Rightarrow>
          (let sock = socket_ret sys;
               evs = [Getaddrinfo host port AF_INET SOCK_STREAM,
                      Socket (ai_family res) (ai_socktype res) (ai_protocol res)]
           in if sock < 0 then (evs @ [Freeaddrinfo], - 1)
              else if connect_ret sys \<noteq> 0 then (evs @ [Connect sock, Freeaddrinfo], - 1)
              else (evs @ [Connect sock, Freeaddrinfo], sock)))"

definition not_found :: HTTPResponse where
  "not_found = response_builder 404 ''Not Found'' ''<h1>404 Not Found</h1>''"

text \<open>The branch of \<open>request_handler\<close> taken when the token is \<open>static\<close>.\<close>

definition static_branch :: "config \<Rightarrow> os \<Rightarrow> HTTPRequest \<Rightarrow> event list \<times> (fault + HTTPResponse)" where
  "static_branch cfg sys request =
     (case realpath sys (BASE_DIR cfg) of
        None \<Rightarrow> ([], Inl Null_Pointer)
      | Some base \<Rightarrow>
          (let (filepath_mem, n) =
                 snprintf (uninit (stack sys ''filepath'') (PATH_MAX cfg))
                   (str base @ ''/'' @ str (path request))
           in if n < 0
              then ([], Inr (response_builder 404 ''Not Found'' ''<h1>snprintf() error</h1>''))
              else
                (case str_in filepath_mem of
                   Inl f \<Rightarrow> ([], Inl f)
                 | Inr filepath \<Rightarrow>
                     if access_R_OK sys filepath \<noteq> 0
                     then ([Access filepath],
                           Inr (response_builder 403 ''Forbidden'' ''<h1>403 Forbidden</h1>''))
                     else
                       (let fd = open_RDONLY sys filepath
                        in if fd = - 1
                           then ([Access filepath, Open filepath], Inr not_found)
                           else
                             (let buffer =
                                    read_file sys filepath
                                      (uninit (stack sys ''buffer'') (MAX_BUFFER_SIZE cfg))
                              in case str_in buffer of
                                   Inl f \<Rightarrow> ([Access filepath, Open filepath, Read fd], Inl f)
                                 | Inr content \<Rightarrow>
                                     ([Access filepath, Open filepath, Read fd, Close fd],
                                      Inr (response_builder 200 ''OK'' content)))))))"

text \<open>The text that the format string of the proxy request produces.\<close>

definition proxy_format :: "string \<Rightarrow> string \<Rightarrow> nat \<Rightarrow> string" where
  "proxy_format meth api_path len =
     meth @ '' '' @ api_path @ '' HTTP/1.1'' @ CRLF @
     ''Host: localhost'' @ CRLF @
     ''Content-Length: '' @ decimal len @ CRLF @
     ''Connection: close'' @ CRLF @
     CRLF"

text \<open>
  The body taken from the backend's reply: \<open>strstr\<close> looks for the blank line; when there is
  none the body is the whole reply, otherwise it starts four characters after the match.
\<close>

definition reply_body :: "string \<Rightarrow> string" where
  "reply_body reply =
     (case strstr reply (CRLF @ CRLF) of
        None \<Rightarrow> reply
      | Some found \<Rightarrow> drop 4 found)"

text \<open>
  The part of the \<open>api\<close> branch after the backend is connected: \<open>send\<close>, \<open>recv\<close>, the
  terminator, \<open>close\<close>, and the split of the reply.
\<close>

definition exchange ::
  "config \<Rightarrow> os \<Rightarrow> int \<Rightarrow> char list \<Rightarrow> int \<Rightarrow> event list \<times> (fault + HTTPResponse)" where
  "exchange cfg sys backend_fd proxy_request proxy_request_len =
     (if length proxy_request < nat proxy_request_len then ([], Inl Out_Of_Bounds)
      else
        (let sent = Send backend_fd (take (nat proxy_request_len) proxy_request)
         in case recv_ret sys of
              Recv_Failed \<Rightarrow>
                ([sent, Recv backend_fd],
                 Inr (response_builder 502 ''Bad Gateway''
                        ''<h1>502 Bad Gateway: Failed to Read from Backend</h1>''))
            | Received data \<Rightarrow>
                (let chunk = take (MAX_BUFFER_SIZE cfg) data;
                     proxy_response_len = length chunk;
                     proxy_response =
                       chunk @ drop proxy_response_len
                         (uninit (stack sys ''proxy_response'') (MAX_BUFFER_SIZE cfg))
                 in case write_at proxy_response_len [NUL] proxy_response of
                      Inl f \<Rightarrow> ([sent, Recv backend_fd], Inl f)
                    | Inr terminated \<Rightarrow>
                        (case str_in terminated of
                           Inl f \<Rightarrow> ([sent, Recv backend_fd, Close backend_fd], Inl f)
                         | Inr reply \<Rightarrow>
                             ([sent, Recv backend_fd, Close backend_fd],
                              Inr (response_builder 200 ''OK'' (reply_body reply)))))))"

text \<open>The branch of \<open>request_handler\<close> taken when the token is \<open>api\<close>.\<close>

definition api_branch :: "config \<Rightarrow> os \<Rightarrow> HTTPRequest \<Rightarrow> event list \<times> (fault + HTTPResponse)" where
  "api_branch cfg sys request =
     (if length (str (path request)) < 4 then ([], Inl Out_Of_Bounds)
      else
        (let api_path = (if drop 4 (str (path request)) = [] then ''/''
                         else drop 4 (str (path request)));
             (proxy_request, proxy_request_len) =
               snprintf (uninit (stack sys ''proxy_request'') (MAX_BUFFER_SIZE cfg))
                 (proxy_format (str (method' request)) api_path (body_length request))
         in if proxy_request_len < 0
            then ([], Inr (response_builder 500 ''Internal Server Error''
                             ''<h1>proxy snprintf() error</h1>''))
            else
              (case strncat proxy_request (str (body request)) (body_length request) of
                 Inl f \<Rightarrow> ([], Inl f)
               | Inr proxy_request' \<Rightarrow>
                   (let (evs, backend_fd) = connect_to_backend sys ''localhost'' ''8000''
                    in if backend_fd = - 1
                       then (evs, Inr (response_builder 502 ''Bad Gateway''
                                         ''<h1>502 Bad Gateway: Backend Unavailable</h1>''))
                       else
                         (let (evs', r) =
                                exchange cfg sys backend_fd proxy_request' proxy_request_len
                          in (evs @ evs', r))))))"

definition request_handler :: "config \<Rightarrow> os \<Rightarrow> HTTPRequest \<Rightarrow> event list \<times> (fault + HTTPResponse)" where
  "request_handler cfg sys request =
     (case strtok (str (path request)) ''/'' of
        Some token \<Rightarrow>
          if token = ''static'' then static_branch cfg sys request
          else if token = ''api'' then api_branch cfg sys request
          else ([], Inr not_found)
      | None \<Rightarrow> ([], Inr not_found))"


section \<open>The connection server\<close>

text \<open>
  One accepted connection: the descriptor \<open>accept\<close> returns, the bytes the client has sent,
  and the operating system as the handler of this request finds it.
\<close>

record connection =
  new_socket :: int
  sent_by_client :: "char list"
  request_os :: os

record world =
  bind_ret :: int
  listen_ret :: int
  connections :: "nat \<Rightarrow> connection"

text \<open>
  \<open>launch\<close> returns only from a failed \<open>bind\<close> or \<open>listen\<close>; its loop has no exit.
  \<open>Serving\<close> is the outcome of a run observed while the loop is still going, \<open>Crashed\<close> the
  outcome of a run that met undefined behaviour.
\<close>

datatype launch_outcome = Returned int | Serving | Crashed fault

text \<open>
  The loop of \<open>launch\<close>, from its \<open>i\<close>-th iteration on, observed for \<open>fuel\<close> iterations.
  \<open>parse_http_request\<close> and \<open>httpresponse_serialize\<close> are not among the sources and are
  parameters; a parser that returns NULL is \<open>None\<close>.
\<close>

fun serve ::
  "config \<Rightarrow> (char list \<Rightarrow> HTTPRequest option) \<Rightarrow> (HTTPResponse \<Rightarrow> char list) \<Rightarrow>
   world \<Rightarrow> nat \<Rightarrow> nat \<Rightarrow> event list \<times> launch_outcome" where
  "serve cfg parse_http_request httpresponse_serialize w i 0 = ([], Serving)"
| "serve cfg parse_http_request httpresponse_serialize w i (Suc fuel) =
     (let c = connections w i;
          sock = new_socket c;
          received = take (MAX_BUFFER_SIZE cfg) (sent_by_client c);
          buffer = received @ drop (length received)
                     (uninit (stack (request_os c) ''launch.buffer'') (MAX_BUFFER_SIZE cfg))
      in case str_in buffer of
           Inl f \<Rightarrow> ([Accept sock, Read sock], Crashed f)
         | Inr printed \<Rightarrow>
             (case parse_http_request buffer of
                None \<Rightarrow> ([Accept sock, Read sock], Crashed Null_Pointer)
              | Some request \<Rightarrow>
                  (case request_handler cfg (request_os c) request of
                     (evs, Inl f) \<Rightarrow> ([Accept sock, Read sock] @ evs, Crashed f)
                   | (evs, Inr response) \<Rightarrow>
                       (let (later, outcome) =
                              serve cfg parse_http_request httpresponse_serialize w (Suc i) fuel
                        in ([Accept sock, Read sock] @ evs @
                            [Write sock (str (httpresponse_serialize response)), Close sock] @ later,
                            outcome)))))"

definition launch ::
  "config \<Rightarrow> (char list \<Rightarrow> HTTPRequest option) \<Rightarrow> (HTTPResponse \<Rightarrow> char list) \<Rightarrow>
   world \<Rightarrow> nat \<Rightarrow> event list \<times> launch_outcome" where
  "launch cfg parse_http_request httpresponse_serialize w fuel =
     (if bind_ret w < 0 then ([Bind], Returned (SOCKET_BIND_ERROR cfg))
      else if listen_ret w < 0 then ([Bind, Listen], Returned (SOCKET_LISTEN_ERROR cfg))
      else
        (let (evs, outcome) = serve cfg parse_http_request httpresponse_serialize w 0 fuel
         in ([Bind, Listen] @ evs, outcome)))"


section \<open>Notions of the specification and example inputs\<close>

text \<open>Lower case of an ASCII letter; every other character is left alone.\<close>

definition lower :: "char \<Rightarrow> char" where
  "lower c =
     (case map_of (zip ''ABCDEFGHIJKLMNOPQRSTUVWXYZ'' ''abcdefghijklmnopqrstuvwxyz'') c of
        Some l \<Rightarrow> l
      | None \<Rightarrow> c)"

definition example_config :: config where
  "example_config =
     \<lparr>MAX_BUFFER_SIZE = 1024, PATH_MAX = 4096, BASE_DIR = ''.'',
      SOCKET_BIND_ERROR = 1, SOCKET_LISTEN_ERROR = 2\<rparr>"

text \<open>
  A machine whose static root is \<open>/srv/www\<close>, with one readable and one unreadable file,
  whose stack holds zero bytes, and whose backend accepts the connection and replies
  \<open>201 Created\<close>.
\<close>

definition example_os :: os where
  "example_os =
     \<lparr>realpath = (\<lambda>dir. Some ''/srv/www''),
      files = (\<lambda>p. if p = ''/srv/www//static/index.html'' then Readable ''<p>hi</p>''
                   else if p = ''/srv/www//static/secret.txt'' then Unreadable
                   else Missing),
      open_fd = Some 5,
      stack = (\<lambda>name i. NUL),
      getaddrinfo = (\<lambda>host port family socktype.
                       Some \<lparr>ai_family = family, ai_socktype = socktype, ai_protocol = 6\<rparr>),
      socket_ret = 4,
      connect_ret = 0,
      recv_ret = Received (''HTTP/1.1 201 Created'' @ CRLF @ CRLF @ ''{id:1}'')\<rparr>"

definition example_world :: world where
  "example_world =
     \<lparr>bind_ret = 0, listen_ret = 0,
      connections = (\<lambda>i. \<lparr>new_socket = 7, sent_by_client = ''GET /unknown HTTP/1.1'' @ CRLF @ CRLF,
                            request_os = example_os\<rparr>)\<rparr>"

text \<open>
  The stale content of a stack that has served the file \<open><p>hello</p>\<close> before: its twelve
  bytes, then zero bytes.
\<close>

definition stale_after_hello :: "string \<Rightarrow> nat \<Rightarrow> char" where
  "stale_after_hello name i = (if i < 12 then ''<p>hello</p>'' ! i else NUL)"

text \<open>
  The variable \<open>api_path\<close> of the \<open>api\<close> branch, the text its \<open>snprintf\<close> formats and the part
  of the body its \<open>strncat\<close> appends.
\<close>

definition forwarded_path :: "HTTPRequest \<Rightarrow> string" where
  "forwarded_path request =
     (if drop 4 (str (path request)) = [] then ''/'' else drop 4 (str (path request)))"

definition outbound_head :: "HTTPRequest \<Rightarrow> string" where
  "outbound_head request =
     proxy_format (str (method' request)) (forwarded_path request) (body_length request)"

definition outbound_body :: "HTTPRequest \<Rightarrow> string" where
  "outbound_body request = take (body_length request) (str (body request))"

text \<open>
  The outbound message (head, body and terminator) fits the array \<open>proxy_request\<close>, and the
  pointer \<open>path + 4\<close> stays inside the path.
\<close>

definition fits :: "config \<Rightarrow> HTTPRequest \<Rightarrow> bool" where
  "fits cfg request \<longleftrightarrow>
     4 \<le> length (str (path request)) \<and>
     int (length (outbound_head request)) \<le> INT_MAX \<and>
     length (outbound_head request) + length (outbound_body request) < MAX_BUFFER_SIZE cfg"

text \<open>What the \<open>api\<close> branch answers once \<open>recv\<close> has been called.\<close>

definition after_recv :: "config \<Rightarrow> os \<Rightarrow> fault + HTTPResponse" where
  "after_recv cfg sys =
     (case recv_ret sys of
        Recv_Failed \<Rightarrow>
          Inr (response_builder 502 ''Bad Gateway''
                 ''<h1>502 Bad Gateway: Failed to Read from Backend</h1>'')
      | Received data \<Rightarrow>
          if MAX_BUFFER_SIZE cfg \<le> length data then Inl Out_Of_Bounds
          else Inr (response_builder 200 ''OK'' (reply_body (str data))))"


section \<open>Auxiliary lemmas\<close>

lemma length_uninit [simp]: "length (uninit g n) = n"
  by (simp add: uninit_def)

lemma str_no_NUL [simp]: "NUL \<notin> set (str bs)"
  by (auto simp: str_def dest: set_takeWhileD)

lemma str_id: "NUL \<notin> set a \<Longrightarrow> str a = a"
  by (induction a) (auto simp: str_def)

lemma str_append_NUL: "NUL \<notin> set a \<Longrightarrow> str (a @ NUL # rest) = a"
  by (induction a) (auto simp: str_def)

lemma str_in_terminated: "NUL \<notin> set a \<Longrightarrow> str_in (a @ NUL # rest) = Inr a"
  by (simp add: str_in_def str_append_NUL)

lemma digit_no_NUL: "d < 10 \<Longrightarrow> digit d \<noteq> NUL"
proof -
  assume "d < 10"
  then have "digit d \<in> set ''0123456789''"
    unfolding digit_def by (intro nth_mem) simp
  then show ?thesis by (auto simp: NUL_def)
qed

lemma decimal_no_NUL: "NUL \<notin> set (decimal n)"
proof (induction n rule: decimal.induct)
  case (1 n)
  show ?case
  proof (cases "n < 10")
    case True
    then show ?thesis by (simp add: decimal.simps [of n] digit_no_NUL [symmetric])
  next
    case False
    with 1 have "NUL \<notin> set (decimal (n div 10))" by simp
    moreover have "digit (n mod 10) \<noteq> NUL" by (rule digit_no_NUL) simp
    ultimately show ?thesis using False by (auto simp: decimal.simps [of n])
  qed
qed

lemma proxy_format_no_NUL:
  "NUL \<notin> set m \<Longrightarrow> NUL \<notin> set p \<Longrightarrow> NUL \<notin> set (proxy_format m p n)"
  using decimal_no_NUL [of n]
  by (auto simp: proxy_format_def CRLF_def CR_def LF_def NUL_def)

lemma forwarded_path_no_NUL: "NUL \<notin> set (forwarded_path request)"
  using str_no_NUL [of "path request"]
  by (auto simp: forwarded_path_def NUL_def dest: in_set_dropD)

lemma outbound_head_no_NUL: "NUL \<notin> set (outbound_head request)"
  by (simp add: outbound_head_def proxy_format_no_NUL forwarded_path_no_NUL)

lemma outbound_body_no_NUL: "NUL \<notin> set (outbound_body request)"
  using str_no_NUL [of "body request"]
  by (auto simp: outbound_body_def dest: in_set_takeD)

lemma snprintf_fits:
  "length s < length mem \<Longrightarrow> int (length s) \<le> INT_MAX \<Longrightarrow>
   snprintf mem s = (s @ NUL # drop (length s + 1) mem, int (length s))"
  by (auto simp: snprintf_def)

lemma strncat_fits:
  assumes "NUL \<notin> set d" and "length d + length (take n src) < length (d @ NUL # rest)"
  shows "strncat (d @ NUL # rest) src n =
           Inr (d @ take n src @ NUL # drop (length (take n src)) rest)"
  using assms by (simp add: strncat_def str_in_terminated write_at_def)


lemma api_branch_fits:
  assumes "fits cfg request"
  shows "api_branch cfg sys request =
           (let (evs, backend_fd) = connect_to_backend sys ''localhost'' ''8000''
            in if backend_fd = - 1
               then (evs, Inr (response_builder 502 ''Bad Gateway''
                                 ''<h1>502 Bad Gateway: Backend Unavailable</h1>''))
               else
                 (let (evs', r) =
                        exchange cfg sys backend_fd
                          (outbound_head request @ outbound_body request @
                           NUL # drop (length (outbound_head request) +
                                       length (outbound_body request) + 1)
                                   (uninit (stack sys ''proxy_request'') (MAX_BUFFER_SIZE cfg)))
                          (int (length (outbound_head request)))
                  in (evs @ evs', r)))"
proof -
  let ?h = "outbound_head request"
  let ?b = "outbound_body request"
  let ?mem = "uninit (stack sys ''proxy_request'') (MAX_BUFFER_SIZE cfg)"
  from assms have len: "4 \<le> length (str (path request))"
    and im: "int (length ?h) \<le> INT_MAX"
    and lt: "length ?h + length ?b < MAX_BUFFER_SIZE cfg"
    by (simp_all add: fits_def)
  have sn: "snprintf ?mem ?h = (?h @ NUL # drop (length ?h + 1) ?mem, int (length ?h))"
    using lt im by (intro snprintf_fits) simp_all
  have sc: "strncat (?h @ NUL # drop (length ?h + 1) ?mem) (str (body request)) (body_length request) =
              Inr (?h @ ?b @ NUL # drop (length ?h + length ?b + 1) ?mem)"
    using lt strncat_fits [of ?h "body_length request" "str (body request)" "drop (length ?h + 1) ?mem"]
    by (simp add: outbound_head_no_NUL outbound_body_def add.commute add.left_commute)
  have pf: "proxy_format (str (method' request))
              (if drop 4 (str (path request)) = [] then ''/'' else drop 4 (str (path request)))
              (body_length request) = ?h"
    by (simp only: outbound_head_def forwarded_path_def)
  have nlt: "\<not> length (str (path request)) < 4"
    using len by simp
  show ?thesis
    unfolding api_branch_def Let_def pf
    by (simp only: nlt if_False sn sc prod.case sum.case of_nat_less_0_iff)
qed

lemma str_append_NUL_any: "str (a @ NUL # rest) = str a"
  by (induction a) (auto simp: str_def)

lemma exchange_cases:
  "exchange cfg sys fd mem len =
     (if length mem < nat len then ([], Inl Out_Of_Bounds)
      else
        (case recv_ret sys of
           Recv_Failed \<Rightarrow>
             ([Send fd (take (nat len) mem), Recv fd],
              Inr (response_builder 502 ''Bad Gateway''
                     ''<h1>502 Bad Gateway: Failed to Read from Backend</h1>''))
         | Received data \<Rightarrow>
             if MAX_BUFFER_SIZE cfg \<le> length data
             then ([Send fd (take (nat len) mem), Recv fd], Inl Out_Of_Bounds)
             else ([Send fd (take (nat len) mem), Recv fd, Close fd],
                   Inr (response_builder 200 ''OK'' (reply_body (str data))))))"
proof (cases "recv_ret sys")
  case Recv_Failed
  then show ?thesis by (simp add: exchange_def)
next
  case (Received data)
  show ?thesis
  proof (cases "MAX_BUFFER_SIZE cfg \<le> length data")
    case True
    then show ?thesis
      using Received by (simp add: exchange_def Let_def write_at_def)
  next
    case False
    then have "take (MAX_BUFFER_SIZE cfg) data = data" by simp
    then show ?thesis
      using Received False
      by (simp add: exchange_def Let_def write_at_def str_in_def str_append_NUL_any)
  qed
qed

lemma strstr_absent: "\<not> sublist needle hay \<Longrightarrow> strstr hay needle = None"
proof (induction hay)
  case Nil
  then show ?case by auto
next
  case (Cons c cs)
  then show ?case by (simp add: sublist_Cons_right)
qed

lemma prefix_inside:
  assumes "prefix needle (p # ps @ needle @ rest)"
  shows "prefix needle (p # ps @ butlast needle)"
proof (cases "needle = []")
  case True
  then show ?thesis by simp
next
  case False
  then have split: "needle = butlast needle @ [last needle]" by simp
  have "p # ps @ needle @ rest = (p # ps @ butlast needle) @ (last needle # rest)"
    by (subst split) simp
  moreover have "length needle \<le> length (p # ps @ butlast needle)"
    by simp
  ultimately show ?thesis
    using assms by (metis prefix_length_prefix prefixI)
qed

lemma strstr_first:
  assumes "needle \<noteq> []" and "\<not> sublist needle (pre @ butlast needle)"
  shows "strstr (pre @ needle @ rest) needle = Some (needle @ rest)"
  using assms(2)
proof (induction pre)
  case Nil
  from assms(1) obtain c cs where "needle = c # cs" by (cases needle) auto
  then show ?case by simp
next
  case (Cons p ps)
  from Cons.prems have np: "\<not> prefix needle (p # ps @ butlast needle)"
    and ns: "\<not> sublist needle (ps @ butlast needle)"
    by (simp_all add: sublist_Cons_right)
  from np have "\<not> prefix needle (p # ps @ needle @ rest)"
    by (auto dest: prefix_inside)
  with Cons.IH [OF ns] show ?case by simp
qed

lemma reply_body_no_separator:
  "\<not> sublist (CRLF @ CRLF) reply \<Longrightarrow> reply_body reply = reply"
  by (simp add: reply_body_def strstr_absent)

lemma reply_body_first_separator:
  assumes "\<not> sublist (CRLF @ CRLF) (pre @ [CR, LF, CR])"
  shows "reply_body (pre @ CRLF @ CRLF @ rest) = rest"
proof -
  have "strstr (pre @ (CRLF @ CRLF) @ rest) (CRLF @ CRLF) = Some ((CRLF @ CRLF) @ rest)"
    using assms by (intro strstr_first) (simp_all add: CRLF_def)
  then show ?thesis by (simp add: reply_body_def CRLF_def)
qed

lemma connect_to_backend_no_recv: "Recv fd \<notin> set (fst (connect_to_backend sys host port))"
  by (simp add: connect_to_backend_def Let_def split: option.splits)

lemma static_branch_no_recv: "Recv fd \<notin> set (fst (static_branch cfg sys request))"
  by (auto simp: static_branch_def Let_def split: option.splits prod.splits sum.splits)

lemma exchange_after_recv:
  "exchange cfg sys bfd mem len = (evs, r) \<Longrightarrow> Recv fd \<in> set evs \<Longrightarrow>
   r = after_recv cfg sys"
  by (auto simp: exchange_cases after_recv_def split: if_splits recv_outcome.splits)

lemma api_branch_after_recv:
  assumes "Recv fd \<in> set (fst (api_branch cfg sys request))"
  shows "snd (api_branch cfg sys request) = after_recv cfg sys"
  using assms connect_to_backend_no_recv [of fd sys "''localhost''" "''8000''"]
  by (auto simp: api_branch_def Let_def dest: exchange_after_recv
      split: if_splits prod.splits sum.splits)

lemma request_handler_after_recv:
  assumes "Recv fd \<in> set (fst (request_handler cfg sys request))"
  shows "snd (request_handler cfg sys request) = after_recv cfg sys"
  using assms static_branch_no_recv [of fd cfg sys request]
  by (auto simp: request_handler_def api_branch_after_recv split: option.splits if_splits)

lemma request_handler_api:
  assumes "strtok (str (path request)) ''/'' = Some ''api''" and "fits cfg request"
    and "connect_to_backend sys ''localhost'' ''8000'' = (evs, bfd)"
  shows "request_handler cfg sys request =
           (if bfd = - 1
            then (evs, Inr (response_builder 502 ''Bad Gateway''
                              ''<h1>502 Bad Gateway: Backend Unavailable</h1>''))
            else
              (case recv_ret sys of
                 Recv_Failed \<Rightarrow>
                   (evs @ [Send bfd (outbound_head request), Recv bfd], after_recv cfg sys)
               | Received data \<Rightarrow>
                   if MAX_BUFFER_SIZE cfg \<le> length data
                   then (evs @ [Send bfd (outbound_head request), Recv bfd], after_recv cfg sys)
                   else (evs @ [Send bfd (outbound_head request), Recv bfd, Close bfd],
                         after_recv cfg sys)))"
proof -
  have lt: "length (outbound_head request) + length (outbound_body request)
              < MAX_BUFFER_SIZE cfg"
    using assms(2) by (simp add: fits_def)
  have "request_handler cfg sys request = api_branch cfg sys request"
    using assms(1) by (simp add: request_handler_def)
  then show ?thesis
    using lt assms(3)
    by (simp add: api_branch_fits [OF assms(2)] exchange_cases after_recv_def
        split: recv_outcome.splits)
qed

lemma example_connect:
  "connect_to_backend example_os ''localhost'' ''8000'' =
     ([Getaddrinfo ''localhost'' ''8000'' AF_INET SOCK_STREAM, Socket AF_INET SOCK_STREAM 6,
       Connect 4, Freeaddrinfo], 4)"
  by (simp add: connect_to_backend_def example_os_def)

lemma connect_to_backend_fails:
  assumes "getaddrinfo sys host port AF_INET SOCK_STREAM = None \<or> socket_ret sys < 0 \<or>
           connect_ret sys \<noteq> 0"
  shows "snd (connect_to_backend sys host port) = - 1"
  using assms by (auto simp: connect_to_backend_def Let_def split: option.splits)

lemma connect_to_backend_first:
  "hd (fst (connect_to_backend sys host port)) = Getaddrinfo host port AF_INET SOCK_STREAM"
  by (simp add: connect_to_backend_def Let_def split: option.splits)

lemma api_branch_truncated:
  assumes "4 \<le> length (str (path request))"
    and "MAX_BUFFER_SIZE cfg < length (outbound_head request)"
    and "0 < MAX_BUFFER_SIZE cfg"
    and "int (length (outbound_head request)) \<le> INT_MAX"
    and "snd (connect_to_backend sys ''localhost'' ''8000'') \<noteq> - 1"
  shows "snd (api_branch cfg sys request) = Inl Out_Of_Bounds"
proof -
  let ?h = "outbound_head request"
  let ?n = "MAX_BUFFER_SIZE cfg"
  let ?mem = "uninit (stack sys ''proxy_request'') ?n"
  have pf: "proxy_format (str (method' request))
              (if drop 4 (str (path request)) = [] then ''/'' else drop 4 (str (path request)))
              (body_length request) = ?h"
    by (simp only: outbound_head_def forwarded_path_def)
  have nlt: "\<not> length (str (path request)) < 4"
    using assms(1) by simp
  have sn: "snprintf ?mem ?h = (take (?n - 1) ?h @ [NUL], int (length ?h))"
    using assms(2-4) by (auto simp: snprintf_def uninit_def)
  have nn: "NUL \<notin> set (take (?n - 1) ?h)"
    using outbound_head_no_NUL [of request] by (auto dest: in_set_takeD)
  have si: "str_in (take (?n - 1) ?h @ [NUL]) = Inr (take (?n - 1) ?h)"
    using str_in_terminated [OF nn, of "[]"] by simp
  have len: "length (take (?n - 1) ?h) = ?n - 1"
    using assms(2) by simp
  show ?thesis
  proof (cases "take (body_length request) (str (body request)) = []")
    case True
    have sc: "strncat (take (?n - 1) ?h @ [NUL]) (str (body request)) (body_length request) =
                Inr (take (?n - 1) ?h @ [NUL])"
      unfolding strncat_def si sum.case write_at_def using True len assms(3) by auto
    have short: "length (take (?n - 1) ?h @ [NUL]) < nat (int (length ?h))"
      using assms(2,3) by simp
    show ?thesis
      unfolding api_branch_def Let_def pf
      using assms(5) short
      by (simp only: nlt if_False sn sc prod.case sum.case of_nat_less_0_iff
          exchange_cases split: prod.splits) auto
  next
    case False
    have sc: "strncat (take (?n - 1) ?h @ [NUL]) (str (body request)) (body_length request) =
                Inl Out_Of_Bounds"
      unfolding strncat_def si sum.case write_at_def using False len assms(3) by auto
    show ?thesis
      unfolding api_branch_def Let_def pf
      by (simp only: nlt if_False sn sc prod.case sum.case of_nat_less_0_iff snd_conv)
  qed
qed

lemma api_branch_overflow:
  assumes "4 \<le> length (str (path request))"
    and "int (length (outbound_head request)) \<le> INT_MAX"
    and "length (outbound_head request) < MAX_BUFFER_SIZE cfg"
    and "MAX_BUFFER_SIZE cfg \<le> length (outbound_head request) + length (outbound_body request)"
  shows "api_branch cfg sys request = ([], Inl Out_Of_Bounds)"
proof -
  let ?h = "outbound_head request"
  let ?mem = "uninit (stack sys ''proxy_request'') (MAX_BUFFER_SIZE cfg)"
  have pf: "proxy_format (str (method' request))
              (if drop 4 (str (path request)) = [] then ''/'' else drop 4 (str (path request)))
              (body_length request) = ?h"
    by (simp only: outbound_head_def forwarded_path_def)
  have nlt: "\<not> length (str (path request)) < 4"
    using assms(1) by simp
  have sn: "snprintf ?mem ?h = (?h @ NUL # drop (length ?h + 1) ?mem, int (length ?h))"
    using assms(2,3) by (intro snprintf_fits) simp_all
  have si: "str_in (?h @ NUL # drop (length ?h + 1) ?mem) = Inr ?h"
    using outbound_head_no_NUL by (rule str_in_terminated)
  have sc: "strncat (?h @ NUL # drop (length ?h + 1) ?mem) (str (body request))
              (body_length request) = Inl Out_Of_Bounds"
    unfolding strncat_def si sum.case write_at_def
    using assms(3,4) by (simp add: outbound_body_def)
  show ?thesis
    unfolding api_branch_def Let_def pf
    by (simp only: nlt if_False sn sc prod.case sum.case of_nat_less_0_iff)
qed

lemma static_branch_resolved:
  assumes "realpath sys (BASE_DIR cfg) = Some base"
    and "length (str base) + 1 + length (str (path request)) < PATH_MAX cfg"
    and "int (length (str base) + 1 + length (str (path request))) \<le> INT_MAX"
  shows "static_branch cfg sys request =
           (let filepath = str base @ ''/'' @ str (path request)
            in if access_R_OK sys filepath \<noteq> 0
               then ([Access filepath],
                     Inr (response_builder 403 ''Forbidden'' ''<h1>403 Forbidden</h1>''))
               else
                 (let fd = open_RDONLY sys filepath
                  in if fd = - 1 then ([Access filepath, Open filepath], Inr not_found)
                     else
                       (case str_in (read_file sys filepath
                                       (uninit (stack sys ''buffer'') (MAX_BUFFER_SIZE cfg))) of
                          Inl f \<Rightarrow> ([Access filepath, Open filepath, Read fd], Inl f)
                        | Inr content \<Rightarrow>
                            ([Access filepath, Open filepath, Read fd, Close fd],
                             Inr (response_builder 200 ''OK'' content)))))"
proof -
  let ?s = "str base @ ''/'' @ str (path request)"
  let ?mem = "uninit (stack sys ''filepath'') (PATH_MAX cfg)"
  have sn: "snprintf ?mem ?s = (?s @ NUL # drop (length ?s + 1) ?mem, int (length ?s))"
    using assms(2,3) by (intro snprintf_fits) simp_all
  have nn: "NUL \<notin> set ?s"
    by (simp add: NUL_def [symmetric]) (simp add: NUL_def)
  have si: "str_in (?s @ NUL # drop (length ?s + 1) ?mem) = Inr ?s"
    using nn by (rule str_in_terminated)
  show ?thesis
    unfolding static_branch_def Let_def
    by (simp only: assms(1) option.case sn prod.case si sum.case of_nat_less_0_iff if_False)
qed

lemma read_file_stale:
  assumes "files sys p = Readable data" and "NUL \<notin> set data" and "length data = m"
    and "m + k < n"
    and "NUL \<notin> set (map stale [m..<m + k])"
    and "stale (m + k) = NUL"
  shows "str_in (read_file sys p (uninit stale n)) = Inr (data @ map stale [m..<m + k])"
proof -
  have up: "[m..<n] = [m..<m + k] @ (m + k) # [Suc (m + k)..<n]"
    using assms(4) by (metis upt_add_eq_append upt_conv_Cons le_add1 less_imp_le_nat
        nat_less_le le_add_diff_inverse)
  have rf: "read_file sys p (uninit stale n) =
              (data @ map stale [m..<m + k]) @ NUL # map stale [Suc (m + k)..<n]"
    using assms(1,3,4,6) by (simp add: read_file_def uninit_def drop_map up)
  have nn: "NUL \<notin> set (data @ map stale [m..<m + k])"
    using assms(2,5) by auto
  show ?thesis
    unfolding rf using nn by (rule str_in_terminated)
qed

lemma example_connect_any_reply:
  "connect_to_backend (example_os\<lparr>recv_ret := r\<rparr>) ''localhost'' ''8000'' =
     ([Getaddrinfo ''localhost'' ''8000'' AF_INET SOCK_STREAM, Socket AF_INET SOCK_STREAM 6,
       Connect 4, Freeaddrinfo], 4)"
  by (simp add: connect_to_backend_def example_os_def)

lemmas eval_request =
  fits_def outbound_head_def outbound_body_def forwarded_path_def proxy_format_def
  str_def NUL_def decimal.simps digit_def CRLF_def CR_def LF_def INT_MAX_def example_config_def
  strtok_def


section \<open>Routing\<close>

text \<open>
  Claim C10. The comparison of the first path segment is exact and case-sensitive: a request
  whose first segment differs from \<open>static\<close> or \<open>api\<close> only in letter case (such as
  \<open>/Static/f\<close> or \<open>/API/x\<close>) gets the 404 response; neither the static nor the proxy
  responder runs (no system call is made).
\<close>

theorem routing_is_case_sensitive:
  assumes "strtok (str (path request)) ''/'' = Some token"
    and "token \<noteq> ''static''" and "token \<noteq> ''api''"
    and "map lower token = ''static'' \<or> map lower token = ''api''"
  shows "request_handler cfg sys request =
           ([], Inr \<lparr>status_code = 404, status_text = ''Not Found'',
                      response_body = ''<h1>404 Not Found</h1>''\<rparr>)"
  using assms(1-3) by (simp add: request_handler_def not_found_def response_builder_def)

theorem routing_is_case_sensitive_witness:
  "strtok (str ''/Static/f'') ''/'' = Some ''Static'' \<and> map lower ''Static'' = ''static'' \<and>
   request_handler example_config example_os
       \<lparr>method' = ''GET'', path = ''/Static/f'', body = [], body_length = 0\<rparr> =
     ([], Inr \<lparr>status_code = 404, status_text = ''Not Found'',
                response_body = ''<h1>404 Not Found</h1>''\<rparr>) \<and>
   strtok (str ''/API/x'') ''/'' = Some ''API'' \<and> map lower ''API'' = ''api'' \<and>
   request_handler example_config example_os
       \<lparr>method' = ''GET'', path = ''/API/x'', body = [], body_length = 0\<rparr> =
     ([], Inr \<lparr>status_code = 404, status_text = ''Not Found'',
                response_body = ''<h1>404 Not Found</h1>''\<rparr>)"
proof -
  have s: "strtok (str ''/Static/f'') ''/'' = Some ''Static''"
    by (simp add: strtok_def str_def NUL_def)
  have a: "strtok (str ''/API/x'') ''/'' = Some ''API''"
    by (simp add: strtok_def str_def NUL_def)
  have ls: "map lower ''Static'' = ''static''" and la: "map lower ''API'' = ''api''"
    by (simp_all add: lower_def)
  show ?thesis
    using s a ls la
      routing_is_case_sensitive [of "\<lparr>method' = ''GET'', path = ''/Static/f'', body = [], body_length = 0\<rparr>"
        "''Static''" example_config example_os]
      routing_is_case_sensitive [of "\<lparr>method' = ''GET'', path = ''/API/x'', body = [], body_length = 0\<rparr>"
        "''API''" example_config example_os]
    by simp
qed


text \<open>
  Claim C1. The router dispatches on the first path segment: \<open>static\<close> goes to the static
  responder, \<open>api\<close> to the proxy responder with the prefix \<open>/api\<close> stripped from the forwarded
  path, anything else is answered 404. The code finds the segment with \<open>strtok\<close>, which skips
  every leading slash, and then forwards the path from its fifth character on, whatever the first
  four are. For the path \<open>//api/x\<close> the proxy responder runs and the request line sent to the
  backend names the path \<open>i/x\<close>: neither \<open>/x\<close> nor a 404.
\<close>

theorem api_behind_two_slashes_forwards_mangled_path:
  "request_handler example_config example_os
       \<lparr>method' = ''GET'', path = ''//api/x'', body = [], body_length = 0\<rparr> =
     ([Getaddrinfo ''localhost'' ''8000'' AF_INET SOCK_STREAM, Socket AF_INET SOCK_STREAM 6,
       Connect 4, Freeaddrinfo,
       Send 4 (''GET i/x HTTP/1.1'' @ CRLF @ ''Host: localhost'' @ CRLF @
               ''Content-Length: 0'' @ CRLF @ ''Connection: close'' @ CRLF @ CRLF),
       Recv 4, Close 4],
      Inr \<lparr>status_code = 200, status_text = ''OK'', response_body = ''{id:1}''\<rparr>)"
proof -
  let ?r = "\<lparr>method' = ''GET'', path = ''//api/x'', body = [], body_length = 0\<rparr>"
  have tok: "strtok (str (path ?r)) ''/'' = Some ''api''" by (simp add: eval_request)
  have fit: "fits example_config ?r" by (simp add: eval_request)
  have rb: "after_recv example_config example_os =
              Inr \<lparr>status_code = 200, status_text = ''OK'', response_body = ''{id:1}''\<rparr>"
    by (simp add: after_recv_def example_os_def example_config_def response_builder_def
        reply_body_def str_def NUL_def CRLF_def CR_def LF_def)
  show ?thesis
    unfolding request_handler_api [OF tok fit example_connect] rb
    by (simp add: example_os_def eval_request)
qed


section \<open>The static responder\<close>

text \<open>
  Claim C2. A request for a file that does not exist under the root is to be answered 404, a
  request for an unreadable file 403. The code calls \<open>access(filepath, R_OK)\<close> first and answers
  403 whenever it fails; it fails for a missing file too, so the request for the missing file
  \<open>/static/missing.txt\<close> is answered 403 Forbidden, exactly as the request for the unreadable
  file \<open>/static/secret.txt\<close> is, and \<open>open\<close>, whose failure is answered 404, is never called.
\<close>

theorem missing_static_file_is_403:
  "files example_os ''/srv/www//static/missing.txt'' = Missing \<and>
   request_handler example_config example_os
       \<lparr>method' = ''GET'', path = ''/static/missing.txt'', body = [], body_length = 0\<rparr> =
     ([Access ''/srv/www//static/missing.txt''],
      Inr \<lparr>status_code = 403, status_text = ''Forbidden'',
           response_body = ''<h1>403 Forbidden</h1>''\<rparr>) \<and>
   files example_os ''/srv/www//static/secret.txt'' = Unreadable \<and>
   request_handler example_config example_os
       \<lparr>method' = ''GET'', path = ''/static/secret.txt'', body = [], body_length = 0\<rparr> =
     ([Access ''/srv/www//static/secret.txt''],
      Inr \<lparr>status_code = 403, status_text = ''Forbidden'',
           response_body = ''<h1>403 Forbidden</h1>''\<rparr>)"
proof -
  let ?r = "\<lparr>method' = ''GET'', path = ''/static/missing.txt'', body = [], body_length = 0\<rparr>"
  let ?u = "\<lparr>method' = ''GET'', path = ''/static/secret.txt'', body = [], body_length = 0\<rparr>"
  have tok: "strtok (str (path ?r)) ''/'' = Some ''static''" by (simp add: eval_request)
  have tou: "strtok (str (path ?u)) ''/'' = Some ''static''" by (simp add: eval_request)
  have rp: "realpath example_os (BASE_DIR example_config) = Some ''/srv/www''"
    by (simp add: example_os_def)
  have sb: "static_branch example_config example_os ?r =
     ([Access ''/srv/www//static/missing.txt''],
      Inr \<lparr>status_code = 403, status_text = ''Forbidden'',
           response_body = ''<h1>403 Forbidden</h1>''\<rparr>)"
    by (subst static_branch_resolved [OF rp])
       (simp_all add: eval_request access_R_OK_def example_os_def response_builder_def)
  have su: "static_branch example_config example_os ?u =
     ([Access ''/srv/www//static/secret.txt''],
      Inr \<lparr>status_code = 403, status_text = ''Forbidden'',
           response_body = ''<h1>403 Forbidden</h1>''\<rparr>)"
    by (subst static_branch_resolved [OF rp])
       (simp_all add: eval_request access_R_OK_def example_os_def response_builder_def)
  show ?thesis
    using tok tou sb su by (simp add: request_handler_def example_os_def)
qed

text \<open>
  Claim C7. A request for an existing readable file is to be answered 200 with the file's
  content as body. The code reads the file into an uninitialised array and passes the array to
  \<open>response_builder\<close> without storing a terminator after the bytes read. On a stack that still
  holds the twelve bytes of an earlier, longer file, the nine-byte file \<open><p>hi</p>\<close> is answered
  with the twelve-byte body \<open><p>hi</p>/p>\<close>.
\<close>

theorem static_body_carries_stale_bytes:
  "files example_os ''/srv/www//static/index.html'' = Readable ''<p>hi</p>'' \<and>
   request_handler example_config (example_os\<lparr>stack := stale_after_hello\<rparr>)
       \<lparr>method' = ''GET'', path = ''/static/index.html'', body = [], body_length = 0\<rparr> =
     ([Access ''/srv/www//static/index.html'', Open ''/srv/www//static/index.html'',
       Read 5, Close 5],
      Inr \<lparr>status_code = 200, status_text = ''OK'', response_body = ''<p>hi</p>/p>''\<rparr>)"
proof -
  let ?r = "\<lparr>method' = ''GET'', path = ''/static/index.html'', body = [], body_length = 0\<rparr>"
  let ?sys = "example_os\<lparr>stack := stale_after_hello\<rparr>"
  have tok: "strtok (str (path ?r)) ''/'' = Some ''static''" by (simp add: eval_request)
  have rp: "realpath ?sys (BASE_DIR example_config) = Some ''/srv/www''"
    by (simp add: example_os_def)
  have fl: "files ?sys ''/srv/www//static/index.html'' = Readable ''<p>hi</p>''"
    by (simp add: example_os_def)
  have rd: "str_in (read_file ?sys ''/srv/www//static/index.html''
                      (uninit (stale_after_hello ''buffer'') 1024)) =
              Inr (''<p>hi</p>'' @ map (stale_after_hello ''buffer'') [9..<9 + 3])"
    by (rule read_file_stale [OF fl]) (simp_all add: NUL_def stale_after_hello_def)
  have rd': "str_in (read_file ?sys ''/srv/www//static/index.html''
                      (uninit (stale_after_hello ''buffer'') 1024)) = Inr ''<p>hi</p>/p>''"
    unfolding rd by (simp add: stale_after_hello_def)
  have sb: "static_branch example_config ?sys ?r =
     ([Access ''/srv/www//static/index.html'', Open ''/srv/www//static/index.html'',
       Read 5, Close 5],
      Inr \<lparr>status_code = 200, status_text = ''OK'', response_body = ''<p>hi</p>/p>''\<rparr>)"
    apply (subst static_branch_resolved [OF rp])
      apply (simp add: eval_request)
     apply (simp add: eval_request)
    using rd' apply (simp add: eval_request access_R_OK_def open_RDONLY_def example_os_def
        response_builder_def Let_def)
    done
  show ?thesis
    using tok sb by (simp add: request_handler_def example_os_def)
qed


section \<open>The proxy responder\<close>

text \<open>
  Claim C4. The outbound message is the request line, the headers \<open>Host\<close>, \<open>Content-Length\<close>
  and \<open>Connection: close\<close> and then the inbound body, and all of it is to be sent in one write;
  a buffer too small for it is to be answered 500. The code passes to \<open>send\<close> the length that
  \<open>snprintf\<close> returned before the body was appended: for \<open>POST /api/x\<close> with the body
  \<open>hello\<close> the bytes sent end with the blank line and the body is not among them. And
  \<open>snprintf\<close> does not fail on truncation: a request whose path has 1005 characters needs 1073
  bytes for the request line and headers, the buffer has 1024, and the request is not answered
  500; \<open>send\<close> is told to read 1073 bytes from the array.
\<close>

theorem proxy_sends_head_only_and_never_500:
  "request_handler example_config example_os
       \<lparr>method' = ''POST'', path = ''/api/x'', body = ''hello'', body_length = 5\<rparr> =
     ([Getaddrinfo ''localhost'' ''8000'' AF_INET SOCK_STREAM, Socket AF_INET SOCK_STREAM 6,
       Connect 4, Freeaddrinfo,
       Send 4 (''POST /x HTTP/1.1'' @ CRLF @ ''Host: localhost'' @ CRLF @
               ''Content-Length: 5'' @ CRLF @ ''Connection: close'' @ CRLF @ CRLF),
       Recv 4, Close 4],
      Inr \<lparr>status_code = 200, status_text = ''OK'', response_body = ''{id:1}''\<rparr>) \<and>
   snd (request_handler example_config example_os
       \<lparr>method' = ''GET'', path = ''/api/'' @ replicate 1000 (CHR ''a''), body = [],
          body_length = 0\<rparr>) = Inl Out_Of_Bounds"
proof -
  let ?r = "\<lparr>method' = ''POST'', path = ''/api/x'', body = ''hello'', body_length = 5\<rparr>"
  let ?w = "\<lparr>method' = ''GET'', path = ''/api/'' @ replicate 1000 (CHR ''a''), body = [],
          body_length = 0\<rparr>"
  have tok: "strtok (str (path ?r)) ''/'' = Some ''api''" by (simp add: eval_request)
  have fit: "fits example_config ?r" by (simp add: eval_request)
  have rb: "after_recv example_config example_os =
              Inr \<lparr>status_code = 200, status_text = ''OK'', response_body = ''{id:1}''\<rparr>"
    by (simp add: after_recv_def example_os_def example_config_def response_builder_def
        reply_body_def str_def NUL_def CRLF_def CR_def LF_def)
  have first: "request_handler example_config example_os ?r =
     ([Getaddrinfo ''localhost'' ''8000'' AF_INET SOCK_STREAM, Socket AF_INET SOCK_STREAM 6,
       Connect 4, Freeaddrinfo,
       Send 4 (''POST /x HTTP/1.1'' @ CRLF @ ''Host: localhost'' @ CRLF @
               ''Content-Length: 5'' @ CRLF @ ''Connection: close'' @ CRLF @ CRLF),
       Recv 4, Close 4],
      Inr \<lparr>status_code = 200, status_text = ''OK'', response_body = ''{id:1}''\<rparr>)"
    unfolding request_handler_api [OF tok fit example_connect] rb
    by (simp add: example_os_def eval_request)
  have st: "str (''/api/'' @ replicate 1000 (CHR ''a'')) = ''/api/'' @ replicate 1000 (CHR ''a'')"
    by (rule str_id) (simp add: NUL_def)
  have p: "str (path ?w) = ''/api/'' @ replicate 1000 (CHR ''a'')"
    by (simp only: HTTPRequest.select_convs st)
  have tokw: "strtok (str (path ?w)) ''/'' = Some ''api''"
    unfolding p by (simp add: strtok_def)
  have l4: "4 \<le> length (str (path ?w))"
    unfolding p by simp
  have fp: "forwarded_path ?w = ''/'' @ replicate 1000 (CHR ''a'')"
    unfolding forwarded_path_def p by simp
  have len: "length (outbound_head ?w) = 1073"
    unfolding outbound_head_def fp
    by (simp add: proxy_format_def decimal.simps digit_def CRLF_def str_def NUL_def)
  have big: "MAX_BUFFER_SIZE example_config < length (outbound_head ?w)"
    unfolding len by (simp add: example_config_def)
  have pos: "0 < MAX_BUFFER_SIZE example_config"
    by (simp add: example_config_def)
  have small: "int (length (outbound_head ?w)) \<le> INT_MAX"
    unfolding len by (simp add: INT_MAX_def)
  have con: "snd (connect_to_backend example_os ''localhost'' ''8000'') \<noteq> - 1"
    by (simp add: example_connect)
  have "snd (api_branch example_config example_os ?w) = Inl Out_Of_Bounds"
    using l4 big pos small con by (rule api_branch_truncated)
  then have second: "snd (request_handler example_config example_os ?w) = Inl Out_Of_Bounds"
    using tokw by (simp add: request_handler_def)
  from first second show ?thesis by simp
qed

text \<open>
  Claim C5. Once the backend read is reached, the backend socket is to be closed before the
  responder returns, whether the read succeeds or fails. When \<open>recv\<close> fails the code returns
  the 502 response at once: the run ends with \<open>recv\<close> and has no \<open>close\<close> of the socket 4.
\<close>

theorem failed_read_leaves_backend_socket_open:
  "request_handler example_config (example_os\<lparr>recv_ret := Recv_Failed\<rparr>)
       \<lparr>method' = ''GET'', path = ''/api/widgets'', body = [], body_length = 0\<rparr> =
     ([Getaddrinfo ''localhost'' ''8000'' AF_INET SOCK_STREAM, Socket AF_INET SOCK_STREAM 6,
       Connect 4, Freeaddrinfo,
       Send 4 (''GET /widgets HTTP/1.1'' @ CRLF @ ''Host: localhost'' @ CRLF @
               ''Content-Length: 0'' @ CRLF @ ''Connection: close'' @ CRLF @ CRLF),
       Recv 4],
      Inr \<lparr>status_code = 502, status_text = ''Bad Gateway'',
           response_body = ''<h1>502 Bad Gateway: Failed to Read from Backend</h1>''\<rparr>) \<and>
   Close 4 \<notin> set (fst (request_handler example_config (example_os\<lparr>recv_ret := Recv_Failed\<rparr>)
       \<lparr>method' = ''GET'', path = ''/api/widgets'', body = [], body_length = 0\<rparr>))"
proof -
  let ?r = "\<lparr>method' = ''GET'', path = ''/api/widgets'', body = [], body_length = 0\<rparr>"
  have tok: "strtok (str (path ?r)) ''/'' = Some ''api''" by (simp add: eval_request)
  have fit: "fits example_config ?r" by (simp add: eval_request)
  show ?thesis
    unfolding request_handler_api [OF tok fit example_connect_any_reply]
    by (simp add: after_recv_def response_builder_def eval_request)
qed

text \<open>
  Claim C3, as amended. For every proxied request whose run reaches \<open>recv\<close>, when \<open>recv\<close>
  returns no error and fewer bytes than the array \<open>proxy_response\<close> holds, the response is
  200 OK whatever status line the backend sent, and its body is taken from the reply read as a
  C string, that is, from the reply up to its first NUL byte: everything after the first
  \<open>CRLF CRLF\<close> of that string. The backend's headers are not forwarded.
\<close>

theorem proxy_answers_200_with_reply_body:
  assumes "Recv fd \<in> set (fst (request_handler cfg sys request))"
    and "recv_ret sys = Received data"
    and "length data < MAX_BUFFER_SIZE cfg"
  shows "snd (request_handler cfg sys request) =
           Inr \<lparr>status_code = 200, status_text = ''OK'',
                response_body = reply_body (str data)\<rparr> \<and>
         (str data = pre @ CRLF @ CRLF @ rest \<and>
          \<not> sublist (CRLF @ CRLF) (pre @ [CR, LF, CR]) \<longrightarrow>
            reply_body (str data) = rest)"
proof -
  have "snd (request_handler cfg sys request) = after_recv cfg sys"
    using assms(1) by (rule request_handler_after_recv)
  also have "\<dots> = Inr (response_builder 200 ''OK'' (reply_body (str data)))"
    using assms(2,3) by (simp add: after_recv_def)
  finally show ?thesis
    by (auto simp: response_builder_def reply_body_first_separator)
qed

theorem proxy_answers_200_with_reply_body_witness:
  "Recv 4 \<in> set (fst (request_handler example_config example_os
       \<lparr>method' = ''GET'', path = ''/api/widgets'', body = [], body_length = 0\<rparr>)) \<and>
   recv_ret example_os = Received (''HTTP/1.1 201 Created'' @ CRLF @ CRLF @ ''{id:1}'') \<and>
   length (''HTTP/1.1 201 Created'' @ CRLF @ CRLF @ ''{id:1}'') < MAX_BUFFER_SIZE example_config \<and>
   str (''HTTP/1.1 201 Created'' @ CRLF @ CRLF @ ''{id:1}'') =
     ''HTTP/1.1 201 Created'' @ CRLF @ CRLF @ ''{id:1}'' \<and>
   \<not> sublist (CRLF @ CRLF) (''HTTP/1.1 201 Created'' @ [CR, LF, CR]) \<and>
   snd (request_handler example_config example_os
       \<lparr>method' = ''GET'', path = ''/api/widgets'', body = [], body_length = 0\<rparr>) =
     Inr \<lparr>status_code = 200, status_text = ''OK'',
          response_body = reply_body (str (''HTTP/1.1 201 Created'' @ CRLF @ CRLF @ ''{id:1}''))\<rparr> \<and>
   reply_body (str (''HTTP/1.1 201 Created'' @ CRLF @ CRLF @ ''{id:1}'')) = ''{id:1}''"
proof -
  let ?r = "\<lparr>method' = ''GET'', path = ''/api/widgets'', body = [], body_length = 0\<rparr>"
  have tok: "strtok (str (path ?r)) ''/'' = Some ''api''" by (simp add: eval_request)
  have fit: "fits example_config ?r" by (simp add: eval_request)
  have rv: "recv_ret example_os = Received (''HTTP/1.1 201 Created'' @ CRLF @ CRLF @ ''{id:1}'')"
    by (simp add: example_os_def)
  have len: "length (''HTTP/1.1 201 Created'' @ CRLF @ CRLF @ ''{id:1}'') < MAX_BUFFER_SIZE example_config"
    by (simp add: example_config_def CRLF_def)
  have reach: "Recv 4 \<in> set (fst (request_handler example_config example_os ?r))"
    unfolding request_handler_api [OF tok fit example_connect]
    using len by (simp add: rv)
  have st: "str (''HTTP/1.1 201 Created'' @ CRLF @ CRLF @ ''{id:1}'') =
              ''HTTP/1.1 201 Created'' @ CRLF @ CRLF @ ''{id:1}''"
    by (simp add: str_def NUL_def CRLF_def CR_def LF_def)
  have first: "\<not> sublist (CRLF @ CRLF) (''HTTP/1.1 201 Created'' @ [CR, LF, CR])"
    by (simp add: sublist_Cons_right CRLF_def CR_def LF_def)
  show ?thesis
    using proxy_answers_200_with_reply_body
        [OF reach rv len, of "''HTTP/1.1 201 Created''" "''{id:1}''"] reach rv len st first
    by simp
qed

text \<open>
  The claim C3 as it stands fails on a reply with a NUL byte in its body: everything after the
  separator is \<open>ab\<close>, NUL, \<open>cd\<close> and the response body is \<open>ab\<close>. It also fails on a reply
  that fills the array (1024 bytes): the terminator is stored one past the array's end.
\<close>

theorem proxy_body_counterexample:
  "snd (request_handler example_config
          (example_os\<lparr>recv_ret := Received (''HTTP/1.1 200 OK'' @ CRLF @ CRLF @ ''ab'' @ [NUL] @ ''cd'')\<rparr>)
          \<lparr>method' = ''GET'', path = ''/api/widgets'', body = [], body_length = 0\<rparr>) =
     Inr \<lparr>status_code = 200, status_text = ''OK'', response_body = ''ab''\<rparr> \<and>
   ''ab'' \<noteq> ''ab'' @ [NUL] @ ''cd'' \<and>
   snd (request_handler example_config
          (example_os\<lparr>recv_ret := Received (''HTTP/1.1 200 OK'' @ CRLF @ CRLF @ replicate 1005 (CHR ''a''))\<rparr>)
          \<lparr>method' = ''GET'', path = ''/api/widgets'', body = [], body_length = 0\<rparr>) =
     Inl Out_Of_Bounds"
proof -
  let ?r = "\<lparr>method' = ''GET'', path = ''/api/widgets'', body = [], body_length = 0\<rparr>"
  have tok: "strtok (str (path ?r)) ''/'' = Some ''api''" by (simp add: eval_request)
  have fit: "fits example_config ?r" by (simp add: eval_request)
  show ?thesis
    unfolding request_handler_api [OF tok fit example_connect_any_reply]
    by (simp add: after_recv_def example_config_def response_builder_def reply_body_def
        str_def NUL_def CRLF_def CR_def LF_def)
qed

text \<open>
  Claim C9, as amended. For every proxied request whose run reaches \<open>recv\<close>, when \<open>recv\<close>
  returns no error and fewer bytes than the array \<open>proxy_response\<close> holds, and the reply read
  as a C string has no \<open>CRLF CRLF\<close>, the body of the 200 response is that string: the reply
  up to its first NUL byte, hence the entire reply when it has no NUL byte.
\<close>

theorem reply_without_separator_is_body:
  assumes "Recv fd \<in> set (fst (request_handler cfg sys request))"
    and "recv_ret sys = Received data"
    and "length data < MAX_BUFFER_SIZE cfg"
    and "\<not> sublist (CRLF @ CRLF) (str data)"
  shows "snd (request_handler cfg sys request) =
           Inr \<lparr>status_code = 200, status_text = ''OK'', response_body = str data\<rparr> \<and>
         (NUL \<notin> set data \<longrightarrow>
            snd (request_handler cfg sys request) =
              Inr \<lparr>status_code = 200, status_text = ''OK'', response_body = data\<rparr>)"
proof -
  have "snd (request_handler cfg sys request) = after_recv cfg sys"
    using assms(1) by (rule request_handler_after_recv)
  also have "\<dots> = Inr (response_builder 200 ''OK'' (reply_body (str data)))"
    using assms(2,3) by (simp add: after_recv_def)
  also have "reply_body (str data) = str data"
    using assms(4) by (rule reply_body_no_separator)
  finally show ?thesis by (simp add: response_builder_def str_id)
qed

theorem reply_without_separator_is_body_witness:
  "Recv 4 \<in> set (fst (request_handler example_config
       (example_os\<lparr>recv_ret := Received ''plain text''\<rparr>)
       \<lparr>method' = ''GET'', path = ''/api/widgets'', body = [], body_length = 0\<rparr>)) \<and>
   length ''plain text'' < MAX_BUFFER_SIZE example_config \<and>
   \<not> sublist (CRLF @ CRLF) (str ''plain text'') \<and>
   NUL \<notin> set ''plain text'' \<and>
   snd (request_handler example_config (example_os\<lparr>recv_ret := Received ''plain text''\<rparr>)
       \<lparr>method' = ''GET'', path = ''/api/widgets'', body = [], body_length = 0\<rparr>) =
     Inr \<lparr>status_code = 200, status_text = ''OK'', response_body = ''plain text''\<rparr>"
proof -
  let ?r = "\<lparr>method' = ''GET'', path = ''/api/widgets'', body = [], body_length = 0\<rparr>"
  let ?sys = "example_os\<lparr>recv_ret := Received ''plain text''\<rparr>"
  have tok: "strtok (str (path ?r)) ''/'' = Some ''api''" by (simp add: eval_request)
  have fit: "fits example_config ?r" by (simp add: eval_request)
  have rv: "recv_ret ?sys = Received ''plain text''" by simp
  have len: "length ''plain text'' < MAX_BUFFER_SIZE example_config"
    by (simp add: example_config_def)
  have reach: "Recv 4 \<in> set (fst (request_handler example_config ?sys ?r))"
    unfolding request_handler_api [OF tok fit example_connect_any_reply]
    using len by simp
  have nosep: "\<not> sublist (CRLF @ CRLF) (str ''plain text'')"
    by (simp add: str_def NUL_def sublist_Cons_right CRLF_def CR_def LF_def)
  have nonul: "NUL \<notin> set ''plain text''" by (simp add: NUL_def)
  have st: "str ''plain text'' = ''plain text''" by (simp add: str_def NUL_def)
  show ?thesis
    using reply_without_separator_is_body [OF reach rv len nosep] reach len nosep nonul st
    by simp
qed

text \<open>
  The claim C9 as it stands fails on a reply without separator that has a NUL byte: the body is
  \<open>first\<close>, not the entire reply. It also fails on a reply that fills the array.
\<close>

theorem whole_reply_counterexample:
  "\<not> sublist (CRLF @ CRLF) (''first'' @ [NUL] @ ''second'') \<and>
   snd (request_handler example_config
          (example_os\<lparr>recv_ret := Received (''first'' @ [NUL] @ ''second'')\<rparr>)
          \<lparr>method' = ''GET'', path = ''/api/widgets'', body = [], body_length = 0\<rparr>) =
     Inr \<lparr>status_code = 200, status_text = ''OK'', response_body = ''first''\<rparr> \<and>
   ''first'' \<noteq> ''first'' @ [NUL] @ ''second'' \<and>
   \<not> sublist (CRLF @ CRLF) (replicate 1024 (CHR ''a'')) \<and>
   snd (request_handler example_config
          (example_os\<lparr>recv_ret := Received (replicate 1024 (CHR ''a''))\<rparr>)
          \<lparr>method' = ''GET'', path = ''/api/widgets'', body = [], body_length = 0\<rparr>) =
     Inl Out_Of_Bounds"
proof -
  let ?r = "\<lparr>method' = ''GET'', path = ''/api/widgets'', body = [], body_length = 0\<rparr>"
  have tok: "strtok (str (path ?r)) ''/'' = Some ''api''" by (simp add: eval_request)
  have fit: "fits example_config ?r" by (simp add: eval_request)
  have a: "\<not> sublist (CRLF @ CRLF) (''first'' @ [NUL] @ ''second'')"
    by (simp add: NUL_def sublist_Cons_right CRLF_def CR_def LF_def)
  have "CR \<notin> set (replicate 1024 (CHR ''a''))" by (simp add: CR_def)
  then have b: "\<not> sublist (CRLF @ CRLF) (replicate 1024 (CHR ''a''))"
    by (auto simp: CRLF_def dest: set_mono_sublist)
  show ?thesis
    unfolding request_handler_api [OF tok fit example_connect_any_reply]
    using a b
    by (simp add: after_recv_def example_config_def response_builder_def reply_body_def
        str_def NUL_def CRLF_def CR_def LF_def)
qed

text \<open>
  Claim C6, as amended. For every request routed to the proxy (first segment \<open>api\<close>, path of
  at least four characters, as every path \<open>/api/...\<close> is) whose outbound message fits the array
  \<open>proxy_request\<close> (the request line and headers no longer than \<open>INT_MAX\<close>; they, the body
  and the terminator within \<open>MAX_BUFFER_SIZE\<close> bytes), when the backend is not reachable (address
  resolution fails, socket creation fails or \<open>connect\<close> fails) the response is 502 with the
  body \<open><h1>502 Bad Gateway: Backend Unavailable</h1>\<close>. The run consists of the calls of
  \<open>connect_to_backend\<close> alone: every such request starts its own connection with a
  \<open>getaddrinfo\<close> restricted to IPv4 (\<open>AF_INET\<close>) and stream sockets (\<open>SOCK_STREAM\<close>).
\<close>

theorem unreachable_backend_gives_502:
  assumes "strtok (str (path request)) ''/'' = Some ''api''"
    and "fits cfg request"
    and "getaddrinfo sys ''localhost'' ''8000'' AF_INET SOCK_STREAM = None \<or>
         socket_ret sys < 0 \<or> connect_ret sys \<noteq> 0"
  shows "snd (request_handler cfg sys request) =
           Inr \<lparr>status_code = 502, status_text = ''Bad Gateway'',
                response_body = ''<h1>502 Bad Gateway: Backend Unavailable</h1>''\<rparr> \<and>
         fst (request_handler cfg sys request) =
           fst (connect_to_backend sys ''localhost'' ''8000'') \<and>
         hd (fst (request_handler cfg sys request)) =
           Getaddrinfo ''localhost'' ''8000'' AF_INET SOCK_STREAM"
proof -
  obtain evs bfd where con: "connect_to_backend sys ''localhost'' ''8000'' = (evs, bfd)"
    by (cases "connect_to_backend sys ''localhost'' ''8000''")
  have "bfd = - 1"
    using connect_to_backend_fails [OF assms(3)] con by simp
  then have "request_handler cfg sys request =
               (evs, Inr (response_builder 502 ''Bad Gateway''
                            ''<h1>502 Bad Gateway: Backend Unavailable</h1>''))"
    using request_handler_api [OF assms(1,2) con] by simp
  then show ?thesis
    using con connect_to_backend_first [of sys "''localhost''" "''8000''"]
    by (simp add: response_builder_def)
qed

theorem unreachable_backend_gives_502_witness:
  "strtok (str ''/api/widgets'') ''/'' = Some ''api'' \<and>
   fits example_config
     \<lparr>method' = ''GET'', path = ''/api/widgets'', body = [], body_length = 0\<rparr> \<and>
   connect_ret (example_os\<lparr>connect_ret := - 1\<rparr>) \<noteq> 0 \<and>
   request_handler example_config (example_os\<lparr>connect_ret := - 1\<rparr>)
       \<lparr>method' = ''GET'', path = ''/api/widgets'', body = [], body_length = 0\<rparr> =
     ([Getaddrinfo ''localhost'' ''8000'' AF_INET SOCK_STREAM, Socket AF_INET SOCK_STREAM 6,
       Connect 4, Freeaddrinfo],
      Inr \<lparr>status_code = 502, status_text = ''Bad Gateway'',
           response_body = ''<h1>502 Bad Gateway: Backend Unavailable</h1>''\<rparr>) \<and>
   fits example_config
     \<lparr>method' = ''POST'', path = ''/api/x'', body = ''hello'', body_length = 5\<rparr> \<and>
   getaddrinfo (example_os\<lparr>getaddrinfo := \<lambda>host port family socktype. None\<rparr>)
     ''localhost'' ''8000'' AF_INET SOCK_STREAM = None \<and>
   request_handler example_config
       (example_os\<lparr>getaddrinfo := \<lambda>host port family socktype. None\<rparr>)
       \<lparr>method' = ''POST'', path = ''/api/x'', body = ''hello'', body_length = 5\<rparr> =
     ([Getaddrinfo ''localhost'' ''8000'' AF_INET SOCK_STREAM],
      Inr \<lparr>status_code = 502, status_text = ''Bad Gateway'',
           response_body = ''<h1>502 Bad Gateway: Backend Unavailable</h1>''\<rparr>)"
proof -
  let ?r = "\<lparr>method' = ''GET'', path = ''/api/widgets'', body = [], body_length = 0\<rparr>"
  let ?p = "\<lparr>method' = ''POST'', path = ''/api/x'', body = ''hello'', body_length = 5\<rparr>"
  let ?sys = "example_os\<lparr>connect_ret := - 1\<rparr>"
  let ?dns = "example_os\<lparr>getaddrinfo := \<lambda>host port family socktype. None\<rparr>"
  have tok: "strtok (str (path ?r)) ''/'' = Some ''api''" by (simp add: eval_request)
  have fit: "fits example_config ?r" by (simp add: eval_request)
  have tokp: "strtok (str (path ?p)) ''/'' = Some ''api''" by (simp add: eval_request)
  have fitp: "fits example_config ?p" by (simp add: eval_request)
  have con: "connect_to_backend ?sys ''localhost'' ''8000'' =
     ([Getaddrinfo ''localhost'' ''8000'' AF_INET SOCK_STREAM, Socket AF_INET SOCK_STREAM 6,
       Connect 4, Freeaddrinfo], - 1)"
    by (simp add: connect_to_backend_def example_os_def)
  have conp: "connect_to_backend ?dns ''localhost'' ''8000'' =
     ([Getaddrinfo ''localhost'' ''8000'' AF_INET SOCK_STREAM], - 1)"
    by (simp add: connect_to_backend_def)
  have down: "getaddrinfo ?sys ''localhost'' ''8000'' AF_INET SOCK_STREAM = None \<or>
              socket_ret ?sys < 0 \<or> connect_ret ?sys \<noteq> 0"
    by simp
  have downp: "getaddrinfo ?dns ''localhost'' ''8000'' AF_INET SOCK_STREAM = None \<or>
              socket_ret ?dns < 0 \<or> connect_ret ?dns \<noteq> 0"
    by simp
  show ?thesis
    using unreachable_backend_gives_502 [OF tok fit down]
      unreachable_backend_gives_502 [OF tokp fitp downp] tok fit fitp con conp
    by (simp add: prod_eq_iff)
qed

text \<open>
  The claim C6 as it stands fails on a request whose outbound message does not fit the array:
  the body is appended with \<open>strncat\<close> before the backend is tried. For \<open>POST /api/x\<close> with
  a body of 960 bytes the head takes 77 bytes, the append runs past the 1024 bytes of the array,
  and the run ends there, without a connection attempt and without a 502, although
  \<open>connect\<close> would fail.
\<close>

theorem oversized_request_counterexample:
  "strtok (str ''/api/x'') ''/'' = Some ''api'' \<and>
   connect_ret (example_os\<lparr>connect_ret := - 1\<rparr>) \<noteq> 0 \<and>
   request_handler example_config (example_os\<lparr>connect_ret := - 1\<rparr>)
       \<lparr>method' = ''POST'', path = ''/api/x'', body = replicate 960 (CHR ''a''),
          body_length = 960\<rparr> = ([], Inl Out_Of_Bounds)"
proof -
  let ?w = "\<lparr>method' = ''POST'', path = ''/api/x'', body = replicate 960 (CHR ''a''),
          body_length = 960\<rparr>"
  have tok0: "strtok (str ''/api/x'') ''/'' = Some ''api''" by (simp add: eval_request)
  have tok: "strtok (str (path ?w)) ''/'' = Some ''api''" by (simp add: eval_request)
  have l4: "4 \<le> length (str (path ?w))" by (simp add: str_def NUL_def)
  have len: "length (outbound_head ?w) = 77"
    by (simp add: outbound_head_def forwarded_path_def proxy_format_def decimal.simps
        digit_def CRLF_def str_def NUL_def)
  have sb: "str (replicate 960 (CHR ''a'')) = replicate 960 (CHR ''a'')"
    by (rule str_id) (simp add: NUL_def)
  have bl: "length (outbound_body ?w) = 960"
    by (simp only: outbound_body_def HTTPRequest.select_convs sb) simp
  have small: "int (length (outbound_head ?w)) \<le> INT_MAX"
    unfolding len by (simp add: INT_MAX_def)
  have lt: "length (outbound_head ?w) < MAX_BUFFER_SIZE example_config"
    unfolding len by (simp add: example_config_def)
  have over: "MAX_BUFFER_SIZE example_config \<le>
                length (outbound_head ?w) + length (outbound_body ?w)"
    unfolding len bl by (simp add: example_config_def)
  have "api_branch example_config (example_os\<lparr>connect_ret := - 1\<rparr>) ?w =
          ([], Inl Out_Of_Bounds)"
    using l4 small lt over by (rule api_branch_overflow)
  then show ?thesis
    using tok tok0 by (simp add: request_handler_def)
qed


section \<open>Start-up\<close>

text \<open>
  Claim C8. When \<open>bind\<close> fails, \<open>launch\<close> returns \<open>SOCKET_BIND_ERROR\<close>; when \<open>listen\<close> fails,
  it returns \<open>SOCKET_LISTEN_ERROR\<close>. In both cases the call is made once, the error goes to the
  caller, and the accept loop is not entered: the run consists of \<open>bind\<close> (and \<open>listen\<close>)
  alone, however long it is observed.
\<close>

theorem launch_reports_bind_and_listen_failure:
  "(bind_ret w < 0 \<longrightarrow>
      launch cfg parse_http_request httpresponse_serialize w fuel =
        ([Bind], Returned (SOCKET_BIND_ERROR cfg))) \<and>
   (0 \<le> bind_ret w \<and> listen_ret w < 0 \<longrightarrow>
      launch cfg parse_http_request httpresponse_serialize w fuel =
        ([Bind, Listen], Returned (SOCKET_LISTEN_ERROR cfg))) \<and>
   (bind_ret w < 0 \<or> listen_ret w < 0 \<longrightarrow>
      Accept sock \<notin> set (fst (launch cfg parse_http_request httpresponse_serialize w fuel)))"
  by (simp add: launch_def)

theorem launch_reports_bind_and_listen_failure_witness:
  "bind_ret (example_world\<lparr>bind_ret := - 1\<rparr>) < 0 \<and>
   launch example_config (\<lambda>b. None) (\<lambda>r. []) (example_world\<lparr>bind_ret := - 1\<rparr>) 3 =
     ([Bind], Returned 1) \<and>
   0 \<le> bind_ret (example_world\<lparr>listen_ret := - 1\<rparr>) \<and>
   listen_ret (example_world\<lparr>listen_ret := - 1\<rparr>) < 0 \<and>
   launch example_config (\<lambda>b. None) (\<lambda>r. []) (example_world\<lparr>listen_ret := - 1\<rparr>) 3 =
     ([Bind, Listen], Returned 2) \<and>
   Accept 7 \<notin> set (fst (launch example_config (\<lambda>b. None) (\<lambda>r. [])
                              (example_world\<lparr>listen_ret := - 1\<rparr>) 3))"
  using
    launch_reports_bind_and_listen_failure
      [of "example_world\<lparr>bind_ret := - 1\<rparr>" example_config "\<lambda>b. None" "\<lambda>r. []" 3 7]
    launch_reports_bind_and_listen_failure
      [of "example_world\<lparr>listen_ret := - 1\<rparr>" example_config "\<lambda>b. None" "\<lambda>r. []" 3 7]
  by (simp add: example_world_def example_config_def)

end
